theory Spec2Isabelle
  imports Complex_Main "HOL-Library.Word" "HOL-Library.AList"
begin

section \<open>Data model (src/types)\<close>

text \<open>
  JavaScript numbers are modelled as exact reals: every statement below is about the
  arithmetic the code writes down, not about IEEE rounding, infinities or NaN.
  Opaque strings (ids, colours, font families) are HOL strings; the content of a text
  shape is a sequence of UTF-16 code units, because the code measures its \<open>length\<close>
  and calls \<open>trim\<close> on it.

  TypeScript's structural subtyping is kept with record extension: a \<open>BoundingBox\<close> is a
  \<open>Point\<close> with \<open>width\<close> and \<open>height\<close>, and a shape is a \<open>BoundingBox\<close> with the
  remaining fields of \<open>BaseShape\<close>. The field \<open>id\<close> is called \<open>shape_id\<close> and the
  discriminant \<open>type\<close> together with the variant's own fields is the datatype \<open>ShapeKind\<close>.
  The optional field \<open>zIndex\<close> is read and written by the code although the interface
  \<open>BaseShape\<close> does not declare it.
\<close>

type_synonym jsstring = "16 word list"

datatype Tool = SelectTool | PenTool | RectangleTool | CircleTool | LineTool | ArrowTool | TextTool

record Point =
  x :: real
  y :: real

record BoundingBox = Point +
  width :: real
  height :: real

record ViewportState =
  offsetX :: real
  offsetY :: real
  zoom :: real

datatype ShapeKind =
    PenShape "Point list"
  | RectangleShape
  | CircleShape
  | LineShape real real
  | ArrowShape real real
  | TextShape jsstring real string

record Shape = BoundingBox +
  shape_id :: string
  strokeColor :: string
  fillColor :: string
  strokeWidth :: real
  roughness :: real
  rotation :: "real option"
  selected :: "bool option"
  zIndex :: "real option"
  kind :: ShapeKind

text \<open>
  The style defaults of \<open>CanvasState\<close> carry the prefix \<open>cv_\<close> where the source uses the
  same field name as in a shape.
\<close>

record CanvasState =
  shapes :: "Shape list"
  selectedShapeId :: "string option"
  currentTool :: Tool
  cv_strokeColor :: string
  cv_fillColor :: string
  cv_strokeWidth :: real
  cv_roughness :: real
  fontSize :: real
  fontFamily :: string
  viewport :: ViewportState

record HistoryState =
  past :: "CanvasState list"
  present :: "CanvasState"
  future :: "CanvasState list"

section \<open>History manager (src/hooks/useHistory.ts)\<close>

definition MAX_HISTORY_SIZE :: nat where
  "MAX_HISTORY_SIZE = 50"

definition initialHistory :: "CanvasState \<Rightarrow> HistoryState" where
  "initialHistory initialState = \<lparr>past = [], present = initialState, future = []\<rparr>"

definition canUndo :: "HistoryState \<Rightarrow> bool" where
  "canUndo h = (length (past h) > 0)"

definition canRedo :: "HistoryState \<Rightarrow> bool" where
  "canRedo h = (length (future h) > 0)"

text \<open>\<open>newPast.shift()\<close> removes the first element, which is \<open>tl\<close>.\<close>

definition pushToHistory :: "HistoryState \<Rightarrow> CanvasState \<Rightarrow> HistoryState" where
  "pushToHistory prev newState =
     (let newPast = past prev @ [present prev];
          newPast' = (if length newPast > MAX_HISTORY_SIZE then tl newPast else newPast)
      in \<lparr>past = newPast', present = newState, future = []\<rparr>)"

text \<open>
  \<open>undo\<close> and \<open>redo\<close> return the new history together with the value the hook function
  returns to its caller. The guard \<open>canUndo\<close> makes \<open>last\<close> and \<open>butlast\<close> well defined,
  the guard \<open>canRedo\<close> does so for \<open>hd\<close> and \<open>tl\<close>.
\<close>

definition undo :: "HistoryState \<Rightarrow> HistoryState \<times> CanvasState" where
  "undo h =
     (if \<not> canUndo h then (h, present h)
      else (\<lparr>past = butlast (past h), present = last (past h), future = present h # future h\<rparr>,
            last (past h)))"

definition redo :: "HistoryState \<Rightarrow> HistoryState \<times> CanvasState" where
  "redo h =
     (if \<not> canRedo h then (h, present h)
      else (\<lparr>past = past h @ [present h], present = hd (future h), future = tl (future h)\<rparr>,
            hd (future h)))"

definition clearHistory :: "CanvasState \<Rightarrow> HistoryState" where
  "clearHistory initialState = \<lparr>past = [], present = initialState, future = []\<rparr>"

definition replacePresent :: "HistoryState \<Rightarrow> CanvasState \<Rightarrow> HistoryState" where
  "replacePresent prev newState = prev\<lparr>present := newState\<rparr>"

text \<open>A run of commits, oldest first.\<close>

definition commits :: "HistoryState \<Rightarrow> CanvasState list \<Rightarrow> HistoryState" where
  "commits h cs = foldl pushToHistory h cs"

section \<open>Geometry utilities (src/utils/shapeUtils.ts)\<close>

text \<open>
  \<open>Math.min(...vs)\<close> and \<open>Math.max(...vs)\<close> on a non-empty array. On an empty array
  JavaScript returns an infinity, which no real number models; every call in the code is
  guarded by a length test, and the functions are left unspecified there.
\<close>

fun Math_min :: "real list \<Rightarrow> real" where
  "Math_min (v # vs) = fold min vs v"

fun Math_max :: "real list \<Rightarrow> real" where
  "Math_max (v # vs) = fold max vs v"

definition getShapeBounds :: "Shape \<Rightarrow> BoundingBox" where
  "getShapeBounds shape =
     (case kind shape of
        PenShape points \<Rightarrow>
          (if length points = 0 then \<lparr>x = x shape, y = y shape, width = 0, height = 0\<rparr>
           else
             let xs = map x points; ys = map y points;
                 minX = Math_min xs; maxX = Math_max xs;
                 minY = Math_min ys; maxY = Math_max ys
             in \<lparr>x = minX, y = minY, width = maxX - minX, height = maxY - minY\<rparr>)
      | LineShape endX endY \<Rightarrow>
          (let minX2 = min (x shape) endX; maxX2 = max (x shape) endX;
               minY2 = min (y shape) endY; maxY2 = max (y shape) endY
           in \<lparr>x = minX2, y = minY2, width = maxX2 - minX2, height = maxY2 - minY2\<rparr>)
      | ArrowShape endX endY \<Rightarrow>
          (let minX2 = min (x shape) endX; maxX2 = max (x shape) endX;
               minY2 = min (y shape) endY; maxY2 = max (y shape) endY
           in \<lparr>x = minX2, y = minY2, width = maxX2 - minX2, height = maxY2 - minY2\<rparr>)
      | _ \<Rightarrow> \<lparr>x = x shape, y = y shape, width = width shape, height = height shape\<rparr>)"

text \<open>\<open>if (shape.rotation)\<close> holds for a rotation that is present and not zero.\<close>

definition hasRotation :: "Shape \<Rightarrow> bool" where
  "hasRotation shape = (case rotation shape of None \<Rightarrow> False | Some r \<Rightarrow> r \<noteq> 0)"

definition usesBoundsCenter :: "ShapeKind \<Rightarrow> bool" where
  "usesBoundsCenter k =
     (case k of LineShape _ _ \<Rightarrow> True | ArrowShape _ _ \<Rightarrow> True | PenShape _ \<Rightarrow> True
      | _ \<Rightarrow> False)"

definition isPointInShape :: "Point \<Rightarrow> Shape \<Rightarrow> bool" where
  "isPointInShape point shape =
     (let bounds = getShapeBounds shape; padding = 5 in
      if hasRotation shape then
        let centerX = (if usesBoundsCenter (kind shape) then x bounds + width bounds / 2
                       else x shape + width shape / 2);
            centerY = (if usesBoundsCenter (kind shape) then y bounds + height bounds / 2
                       else y shape + height shape / 2);
            c = cos (- the (rotation shape));
            s = sin (- the (rotation shape));
            dx = x point - centerX;
            dy = y point - centerY;
            rotatedX = centerX + (dx * c - dy * s);
            rotatedY = centerY + (dx * s + dy * c)
        in rotatedX \<ge> x bounds - padding \<and> rotatedX \<le> x bounds + width bounds + padding
         \<and> rotatedY \<ge> y bounds - padding \<and> rotatedY \<le> y bounds + height bounds + padding
      else
        x point \<ge> x bounds - padding \<and> x point \<le> x bounds + width bounds + padding
      \<and> y point \<ge> y bounds - padding \<and> y point \<le> y bounds + height bounds + padding)"

definition moveShape :: "Shape \<Rightarrow> real \<Rightarrow> real \<Rightarrow> Shape" where
  "moveShape shape deltaX deltaY =
     (case kind shape of
        PenShape points \<Rightarrow>
          shape\<lparr>x := x shape + deltaX, y := y shape + deltaY,
                kind := PenShape (map (\<lambda>p. \<lparr>x = x p + deltaX, y = y p + deltaY\<rparr>) points)\<rparr>
      | LineShape endX endY \<Rightarrow>
          shape\<lparr>x := x shape + deltaX, y := y shape + deltaY,
                kind := LineShape (endX + deltaX) (endY + deltaY)\<rparr>
      | ArrowShape endX endY \<Rightarrow>
          shape\<lparr>x := x shape + deltaX, y := y shape + deltaY,
                kind := ArrowShape (endX + deltaX) (endY + deltaY)\<rparr>
      | _ \<Rightarrow> shape\<lparr>x := x shape + deltaX, y := y shape + deltaY\<rparr>)"

definition resizeShape :: "Shape \<Rightarrow> BoundingBox \<Rightarrow> Shape" where
  "resizeShape shape newBounds =
     (let oldBounds = getShapeBounds shape;
          oldWidth = max (width oldBounds) 0.1;
          oldHeight = max (height oldBounds) 0.1;
          scaleX = width newBounds / oldWidth;
          scaleY = height newBounds / oldHeight
      in case kind shape of
        PenShape points \<Rightarrow>
          shape\<lparr>x := x newBounds, y := y newBounds,
                width := width newBounds, height := height newBounds,
                kind := PenShape (map (\<lambda>p. \<lparr>x = x newBounds + (x p - x oldBounds) * scaleX,
                                            y = y newBounds + (y p - y oldBounds) * scaleY\<rparr>) points)\<rparr>
      | LineShape endX endY \<Rightarrow>
          shape\<lparr>x := x newBounds + (x shape - x oldBounds) * scaleX,
                y := y newBounds + (y shape - y oldBounds) * scaleY,
                kind := LineShape (x newBounds + (endX - x oldBounds) * scaleX)
                                  (y newBounds + (endY - y oldBounds) * scaleY),
                width := width newBounds, height := height newBounds\<rparr>
      | ArrowShape endX endY \<Rightarrow>
          shape\<lparr>x := x newBounds + (x shape - x oldBounds) * scaleX,
                y := y newBounds + (y shape - y oldBounds) * scaleY,
                kind := ArrowShape (x newBounds + (endX - x oldBounds) * scaleX)
                                   (y newBounds + (endY - y oldBounds) * scaleY),
                width := width newBounds, height := height newBounds\<rparr>
      | _ \<Rightarrow> shape\<lparr>x := x newBounds, y := y newBounds,
                    width := width newBounds, height := height newBounds\<rparr>)"

definition rotateShape :: "Shape \<Rightarrow> real \<Rightarrow> Shape" where
  "rotateShape shape r = shape\<lparr>rotation := Some r\<rparr>"

text \<open>The loop runs from the last index down to 0 and returns the first hit.\<close>

definition getShapeAtPoint :: "Point \<Rightarrow> Shape list \<Rightarrow> Shape option" where
  "getShapeAtPoint point ss = find (isPointInShape point) (rev ss)"

section \<open>Canvas operations (src/hooks/useCanvas.ts)\<close>

text \<open>
  The hook keeps its state in the history: \<open>canvasState\<close> is \<open>present\<close>, and every
  operation is a function from the history to the next history. Random ids
  (\<open>Math.random().toString(36).substr(2, 9)\<close>) are an input of the operation that draws
  one.
\<close>

definition initialCanvasState :: CanvasState where
  "initialCanvasState =
     \<lparr>shapes = [], selectedShapeId = None, currentTool = PenTool,
      cv_strokeColor = ''#ffffff'', cv_fillColor = ''transparent'',
      cv_strokeWidth = 2, cv_roughness = 0, fontSize = 16,
      fontFamily = ''Arial, sans-serif'',
      viewport = \<lparr>offsetX = 0, offsetY = 0, zoom = 1\<rparr>\<rparr>"

text \<open>\<open>if (canvasState.selectedShapeId)\<close>: neither \<open>null\<close> nor the empty string.\<close>

definition truthyId :: "string option \<Rightarrow> bool" where
  "truthyId i = (case i of None \<Rightarrow> False | Some s \<Rightarrow> s \<noteq> [])"

text \<open>\<open>shape.zIndex || 0\<close>.\<close>

definition zIndexOr0 :: "Shape \<Rightarrow> real" where
  "zIndexOr0 shape = (case zIndex shape of None \<Rightarrow> 0 | Some z \<Rightarrow> (if z = 0 then 0 else z))"

definition deselectAll :: "Shape list \<Rightarrow> Shape list" where
  "deselectAll ss = map (\<lambda>shape. shape\<lparr>selected := Some False\<rparr>) ss"

definition updateCanvasState :: "HistoryState \<Rightarrow> CanvasState \<Rightarrow> HistoryState" where
  "updateCanvasState h newState = pushToHistory h newState"

definition setCurrentTool :: "HistoryState \<Rightarrow> Tool \<Rightarrow> HistoryState" where
  "setCurrentTool h tool =
     (let canvasState = present h
      in replacePresent h (canvasState\<lparr>currentTool := tool, selectedShapeId := None,
                                        shapes := deselectAll (shapes canvasState)\<rparr>))"

definition clearCanvas :: "HistoryState \<Rightarrow> HistoryState" where
  "clearCanvas h = pushToHistory h ((present h)\<lparr>shapes := [], selectedShapeId := None\<rparr>)"

definition deleteSelectedShape :: "HistoryState \<Rightarrow> HistoryState" where
  "deleteSelectedShape h =
     (let canvasState = present h in
      if truthyId (selectedShapeId canvasState) then
        pushToHistory h
          (canvasState\<lparr>shapes := filter (\<lambda>shape. Some (shape_id shape) \<noteq> selectedShapeId canvasState)
                                         (shapes canvasState),
                        selectedShapeId := None\<rparr>)
      else h)"

definition duplicateSelectedShape :: "HistoryState \<Rightarrow> string \<Rightarrow> HistoryState" where
  "duplicateSelectedShape h newId =
     (let canvasState = present h in
      if truthyId (selectedShapeId canvasState) then
        (case find (\<lambda>shape. Some (shape_id shape) = selectedShapeId canvasState)
                   (shapes canvasState) of
           None \<Rightarrow> h
         | Some selectedShape \<Rightarrow>
             let duplicatedShape =
                   selectedShape\<lparr>shape_id := newId, x := x selectedShape + 20,
                                 y := y selectedShape + 20, selected := Some False\<rparr>;
                 newState =
                   canvasState\<lparr>shapes := deselectAll (shapes canvasState) @ [duplicatedShape],
                               selectedShapeId := Some (shape_id duplicatedShape)\<rparr>
             in pushToHistory h newState)
      else h)"

text \<open>
  \<open>undoAction\<close> queues the update of \<open>undo\<close> and then \<open>replacePresent\<close> with the value
  \<open>undo\<close> returned; a snapshot is an object and therefore truthy.
\<close>

definition undoAction :: "HistoryState \<Rightarrow> HistoryState" where
  "undoAction h = (let (h', previousState) = undo h in replacePresent h' previousState)"

definition redoAction :: "HistoryState \<Rightarrow> HistoryState" where
  "redoAction h = (let (h', nextState) = redo h in replacePresent h' nextState)"

text \<open>
  The argument of \<open>setViewport\<close> is a partial viewport: each of the three keys may be
  absent, and the spread keeps the old value of an absent key.
\<close>

definition setViewport ::
  "HistoryState \<Rightarrow> real option \<Rightarrow> real option \<Rightarrow> real option \<Rightarrow> HistoryState" where
  "setViewport h newOffsetX newOffsetY newZoom =
     (let canvasState = present h; v = viewport canvasState
      in replacePresent h
           (canvasState\<lparr>viewport :=
              \<lparr>offsetX = (case newOffsetX of None \<Rightarrow> offsetX v | Some a \<Rightarrow> a),
               offsetY = (case newOffsetY of None \<Rightarrow> offsetY v | Some a \<Rightarrow> a),
               zoom = (case newZoom of None \<Rightarrow> zoom v | Some a \<Rightarrow> a)\<rparr>\<rparr>))"

definition panViewport :: "HistoryState \<Rightarrow> real \<Rightarrow> real \<Rightarrow> HistoryState" where
  "panViewport h deltaX deltaY =
     (let v = viewport (present h)
      in setViewport h (Some (offsetX v + deltaX)) (Some (offsetY v + deltaY)) None)"

text \<open>
  \<open>centerX\<close> and \<open>centerY\<close> are optional parameters. With a zoom of 0 JavaScript computes
  an infinite ratio where HOL's division returns 0; the new zoom does not depend on it.
\<close>

definition zoomViewport ::
  "HistoryState \<Rightarrow> real \<Rightarrow> real option \<Rightarrow> real option \<Rightarrow> HistoryState" where
  "zoomViewport h zoomDelta centerX centerY =
     (let v = viewport (present h);
          newZoom = max 0.1 (min 5 (zoom v + zoomDelta))
      in case (centerX, centerY) of
           (Some cx, Some cy) \<Rightarrow>
             let zoomRatio = newZoom / zoom v;
                 newOffsetX = cx - (cx - offsetX v) * zoomRatio;
                 newOffsetY = cy - (cy - offsetY v) * zoomRatio
             in setViewport h (Some newOffsetX) (Some newOffsetY) (Some newZoom)
         | _ \<Rightarrow> setViewport h None None (Some newZoom))"

definition bringForward :: "HistoryState \<Rightarrow> HistoryState" where
  "bringForward h =
     (let canvasState = present h in
      if truthyId (selectedShapeId canvasState) then
        pushToHistory h
          (canvasState\<lparr>shapes :=
             map (\<lambda>shape. if Some (shape_id shape) = selectedShapeId canvasState
                           then shape\<lparr>zIndex := Some (zIndexOr0 shape + 1)\<rparr> else shape)
                 (shapes canvasState)\<rparr>)
      else h)"

definition sendBackward :: "HistoryState \<Rightarrow> HistoryState" where
  "sendBackward h =
     (let canvasState = present h in
      if truthyId (selectedShapeId canvasState) then
        pushToHistory h
          (canvasState\<lparr>shapes :=
             map (\<lambda>shape. if Some (shape_id shape) = selectedShapeId canvasState
                           then shape\<lparr>zIndex := Some (max 0 (zIndexOr0 shape - 1))\<rparr> else shape)
                 (shapes canvasState)\<rparr>)
      else h)"

section \<open>Application shell (src/App.tsx)\<close>

definition handleZoomIn :: "HistoryState \<Rightarrow> HistoryState" where
  "handleZoomIn h = zoomViewport h 0.1 None None"

definition handleZoomOut :: "HistoryState \<Rightarrow> HistoryState" where
  "handleZoomOut h = zoomViewport h (- 0.1) None None"

definition handleZoomReset :: "HistoryState \<Rightarrow> HistoryState" where
  "handleZoomReset h = zoomViewport h (1 - zoom (viewport (present h))) None None"

section \<open>Canvas component (src/components/Canvas.tsx)\<close>

text \<open>
  The component's \<open>useState\<close> cells form the record \<open>CanvasUI\<close>. \<open>App\<close> passes
  \<open>updateCanvasState\<close> as \<open>onCanvasStateChange\<close>, \<open>panViewport\<close> as \<open>onPan\<close> and
  \<open>zoomViewport\<close> as \<open>onZoom\<close>, so a handler maps the pair of the component state and
  the history to the next pair. Each handler reads the snapshot left by the previous one.
  A pointer event carries the result of \<open>getMousePos\<close>, the pointer position relative to
  the canvas element.
\<close>

record TextInput = Point +
  visible :: bool

record CanvasUI =
  isDrawing :: bool
  isDragging :: bool
  isPanning :: bool
  dragStart :: "Point option"
  panStart :: "Point option"
  currentShape :: "Shape option"
  lastTouchDistance :: "real option"
  textInput :: TextInput

record App =
  ui :: CanvasUI
  history :: HistoryState

definition initialUI :: CanvasUI where
  "initialUI =
     \<lparr>isDrawing = False, isDragging = False, isPanning = False, dragStart = None,
      panStart = None, currentShape = None, lastTouchDistance = None,
      textInput = \<lparr>x = 0, y = 0, visible = False\<rparr>\<rparr>"

definition screenToCanvas :: "ViewportState \<Rightarrow> real \<Rightarrow> real \<Rightarrow> Point" where
  "screenToCanvas v screenX screenY =
     \<lparr>x = (screenX - offsetX v) / zoom v, y = (screenY - offsetY v) / zoom v\<rparr>"

definition canvasToScreen :: "ViewportState \<Rightarrow> real \<Rightarrow> real \<Rightarrow> Point" where
  "canvasToScreen v canvasX canvasY =
     \<lparr>x = canvasX * zoom v + offsetX v, y = canvasY * zoom v + offsetY v\<rparr>"

text \<open>
  \<open>createShape\<close> is called for the drawing tools only. Its default branch would turn the
  tool \<open>select\<close> into an object outside the union \<open>Shape\<close>; that call never happens and
  is \<open>None\<close> here.
\<close>

definition createShape :: "CanvasState \<Rightarrow> string \<Rightarrow> Point \<Rightarrow> Tool \<Rightarrow> Shape option" where
  "createShape canvasState newId startPoint tool =
     (let baseShape = (\<lambda>k.
            \<lparr>x = x startPoint, y = y startPoint, width = 0, height = 0,
             shape_id = newId,
             strokeColor = cv_strokeColor canvasState, fillColor = cv_fillColor canvasState,
             strokeWidth = cv_strokeWidth canvasState, roughness = cv_roughness canvasState,
             rotation = None, selected = None, zIndex = None, kind = k\<rparr>)
      in case tool of
           PenTool \<Rightarrow> Some (baseShape (PenShape [startPoint]))
         | LineTool \<Rightarrow> Some (baseShape (LineShape (x startPoint) (y startPoint)))
         | ArrowTool \<Rightarrow> Some (baseShape (ArrowShape (x startPoint) (y startPoint)))
         | TextTool \<Rightarrow>
             Some (baseShape (TextShape [] (fontSize canvasState) (fontFamily canvasState)))
         | RectangleTool \<Rightarrow> Some (baseShape RectangleShape)
         | CircleTool \<Rightarrow> Some (baseShape CircleShape)
         | SelectTool \<Rightarrow> None)"

definition handleMouseDown :: "nat \<Rightarrow> bool \<Rightarrow> Point \<Rightarrow> string \<Rightarrow> App \<Rightarrow> App" where
  "handleMouseDown button ctrlKey screenPoint newId app =
     (let canvasState = present (history app);
          canvasPoint = screenToCanvas (viewport canvasState) (x screenPoint) (y screenPoint)
      in
      if button = 1 \<or> (button = 0 \<and> ctrlKey) then
        app\<lparr>ui := (ui app)\<lparr>isPanning := True, panStart := Some screenPoint\<rparr>\<rparr>
      else if currentTool canvasState = SelectTool then
        (case getShapeAtPoint canvasPoint (shapes canvasState) of
           Some clickedShape \<Rightarrow>
             let newState = canvasState
                   \<lparr>shapes := map (\<lambda>shape. shape\<lparr>selected :=
                                       Some (shape_id shape = shape_id clickedShape)\<rparr>)
                                  (shapes canvasState),
                    selectedShapeId := Some (shape_id clickedShape)\<rparr>
             in \<lparr>ui = (ui app)\<lparr>isDragging := True, dragStart := Some canvasPoint\<rparr>,
                 history = updateCanvasState (history app) newState\<rparr>
         | None \<Rightarrow>
             let newState = canvasState
                   \<lparr>shapes := deselectAll (shapes canvasState), selectedShapeId := None\<rparr>
             in \<lparr>ui = (ui app)\<lparr>isPanning := True, panStart := Some screenPoint\<rparr>,
                 history = updateCanvasState (history app) newState\<rparr>)
      else if currentTool canvasState = TextTool then
        app\<lparr>ui := (ui app)\<lparr>textInput :=
               \<lparr>x = x canvasPoint, y = y canvasPoint, visible = True\<rparr>\<rparr>\<rparr>
      else
        (case createShape canvasState newId canvasPoint (currentTool canvasState) of
           Some newShape \<Rightarrow>
             app\<lparr>ui := (ui app)\<lparr>currentShape := Some newShape, isDrawing := True\<rparr>\<rparr>
         | None \<Rightarrow> app))"

definition extendShape :: "Shape \<Rightarrow> Point \<Rightarrow> Shape" where
  "extendShape cur canvasPoint =
     (case kind cur of
        PenShape points \<Rightarrow> cur\<lparr>kind := PenShape (points @ [canvasPoint])\<rparr>
      | RectangleShape \<Rightarrow>
          cur\<lparr>width := x canvasPoint - x cur, height := y canvasPoint - y cur\<rparr>
      | CircleShape \<Rightarrow>
          cur\<lparr>width := x canvasPoint - x cur, height := y canvasPoint - y cur\<rparr>
      | LineShape _ _ \<Rightarrow> cur\<lparr>kind := LineShape (x canvasPoint) (y canvasPoint)\<rparr>
      | ArrowShape _ _ \<Rightarrow> cur\<lparr>kind := ArrowShape (x canvasPoint) (y canvasPoint)\<rparr>
      | _ \<Rightarrow> cur)"

definition handleMouseMove :: "Point \<Rightarrow> App \<Rightarrow> App" where
  "handleMouseMove screenPoint app =
     (let canvasState = present (history app);
          canvasPoint = screenToCanvas (viewport canvasState) (x screenPoint) (y screenPoint);
          u = ui app
      in
      if isPanning u \<and> panStart u \<noteq> None then
        let deltaX = x screenPoint - x (the (panStart u));
            deltaY = y screenPoint - y (the (panStart u))
        in \<lparr>ui = u\<lparr>panStart := Some screenPoint\<rparr>,
            history = panViewport (history app) deltaX deltaY\<rparr>
      else if isDragging u \<and> dragStart u \<noteq> None \<and> truthyId (selectedShapeId canvasState) then
        let deltaX = x canvasPoint - x (the (dragStart u));
            deltaY = y canvasPoint - y (the (dragStart u));
            newState = canvasState
              \<lparr>shapes := map (\<lambda>shape. if Some (shape_id shape) = selectedShapeId canvasState
                                        then moveShape shape deltaX deltaY else shape)
                             (shapes canvasState)\<rparr>
        in \<lparr>ui = u\<lparr>dragStart := Some canvasPoint\<rparr>,
            history = updateCanvasState (history app) newState\<rparr>
      else if isDrawing u \<and> currentShape u \<noteq> None then
        app\<lparr>ui := u\<lparr>currentShape := Some (extendShape (the (currentShape u)) canvasPoint)\<rparr>\<rparr>
      else app)"

definition handleMouseUp :: "App \<Rightarrow> App" where
  "handleMouseUp app =
     (let canvasState = present (history app); u = ui app;
          app' = (if isDrawing u \<and> currentShape u \<noteq> None then
                    \<lparr>ui = u\<lparr>currentShape := None\<rparr>,
                     history = updateCanvasState (history app)
                       (canvasState\<lparr>shapes := shapes canvasState @ [the (currentShape u)]\<rparr>)\<rparr>
                  else app)
      in app'\<lparr>ui := (ui app')\<lparr>isDrawing := False, isDragging := False, isPanning := False,
                               dragStart := None, panStart := None\<rparr>\<rparr>)"

definition handleWheel :: "bool \<Rightarrow> real \<Rightarrow> real \<Rightarrow> Point \<Rightarrow> App \<Rightarrow> App" where
  "handleWheel ctrlKey deltaX deltaY screenPoint app =
     (if ctrlKey then
        let zoomDelta = (if deltaY > 0 then - 0.1 else 0.1)
        in app\<lparr>history := zoomViewport (history app) zoomDelta
                             (Some (x screenPoint)) (Some (y screenPoint))\<rparr>
      else app\<lparr>history := panViewport (history app) (- deltaX) (- deltaY)\<rparr>)"

text \<open>
  \<open>String.prototype.trim\<close> removes the white space and line terminator code units of
  ECMAScript from both ends.
\<close>

definition isWhiteSpace :: "16 word \<Rightarrow> bool" where
  "isWhiteSpace c =
     (c = 0x0009 \<or> c = 0x000A \<or> c = 0x000B \<or> c = 0x000C \<or> c = 0x000D \<or> c = 0x0020
      \<or> c = 0x00A0 \<or> c = 0x1680 \<or> (0x2000 \<le> c \<and> c \<le> 0x200A) \<or> c = 0x2028
      \<or> c = 0x2029 \<or> c = 0x202F \<or> c = 0x205F \<or> c = 0x3000 \<or> c = 0xFEFF)"

definition trim :: "jsstring \<Rightarrow> jsstring" where
  "trim s = rev (dropWhile isWhiteSpace (rev (dropWhile isWhiteSpace s)))"

definition nextZIndex :: "Shape list \<Rightarrow> real" where
  "nextZIndex ss = (if length ss > 0 then Math_max (map zIndexOr0 ss) + 1 else 0)"

definition handleTextSubmit :: "jsstring \<Rightarrow> string \<Rightarrow> App \<Rightarrow> App" where
  "handleTextSubmit text newId app =
     (let canvasState = present (history app); u = ui app;
          app' = (if trim text \<noteq> [] then
                    let textShape =
                          \<lparr>x = x (textInput u), y = y (textInput u),
                           width = real (length text) * fontSize canvasState * 0.6,
                           height = fontSize canvasState,
                           shape_id = newId,
                           strokeColor = cv_strokeColor canvasState,
                           fillColor = cv_fillColor canvasState,
                           strokeWidth = cv_strokeWidth canvasState,
                           roughness = cv_roughness canvasState,
                           rotation = None, selected = None,
                           zIndex = Some (nextZIndex (shapes canvasState)),
                           kind = TextShape text (fontSize canvasState) (fontFamily canvasState)\<rparr>
                    in app\<lparr>history := updateCanvasState (history app)
                              (canvasState\<lparr>shapes := shapes canvasState @ [textShape]\<rparr>)\<rparr>
                  else app)
      in app'\<lparr>ui := (ui app')\<lparr>textInput := \<lparr>x = 0, y = 0, visible = False\<rparr>\<rparr>\<rparr>)"

text \<open>A drag gesture: pointer-down, the move samples in order, pointer-up.\<close>

definition dragGesture :: "nat \<Rightarrow> bool \<Rightarrow> Point \<Rightarrow> string \<Rightarrow> Point list \<Rightarrow> App \<Rightarrow> App" where
  "dragGesture button ctrlKey downPoint newId moves app =
     handleMouseUp (foldl (\<lambda>a p. handleMouseMove p a)
                          (handleMouseDown button ctrlKey downPoint newId app) moves)"

text \<open>
  A zoom operation is one of the ways the application changes the zoom: a call of
  \<open>onZoom\<close> with any delta and optional anchor (the pinch handler and the wheel handler
  make such calls), or one of the three toolbar and keyboard commands.
\<close>

datatype ZoomOp = OnZoom real "real option" "real option" | ZoomIn | ZoomOut | ZoomReset

fun zoomStep :: "HistoryState \<Rightarrow> ZoomOp \<Rightarrow> HistoryState" where
  "zoomStep h (OnZoom zoomDelta centerX centerY) = zoomViewport h zoomDelta centerX centerY"
| "zoomStep h ZoomIn = handleZoomIn h"
| "zoomStep h ZoomOut = handleZoomOut h"
| "zoomStep h ZoomReset = handleZoomReset h"

section \<open>JSON import (src/utils/exportUtils.ts)\<close>

text \<open>
  \<open>JSON.parse\<close> is the platform's: its outcome on the file's text is an input, \<open>None\<close>
  when it throws a syntax error. A parsed value is any JSON value; an array is an object
  that can receive a named property, kept in its second component. The file is a module
  and runs in strict mode, where reading a property of \<open>null\<close> and creating a property on
  a primitive both throw a \<open>TypeError\<close>; the \<open>catch\<close> clause turns every exception of
  the \<open>try\<close> block into the same rejection.
\<close>

datatype jsvalue =
    JUndefined
  | JNull
  | JBool bool
  | JNum real
  | JStr string
  | JArr "jsvalue list" "(string \<times> jsvalue) list"
  | JObj "(string \<times> jsvalue) list"

datatype js_exception = TypeError | SyntaxError

datatype import_error = InvalidJSONFile | FailedToReadFile

definition lookupProp :: "(string \<times> jsvalue) list \<Rightarrow> string \<Rightarrow> jsvalue" where
  "lookupProp props k = (case map_of props k of None \<Rightarrow> JUndefined | Some v \<Rightarrow> v)"

fun getProp :: "jsvalue \<Rightarrow> string \<Rightarrow> js_exception + jsvalue" where
  "getProp JUndefined k = Inl TypeError"
| "getProp JNull k = Inl TypeError"
| "getProp (JObj props) k = Inr (lookupProp props k)"
| "getProp (JArr elems props) k = Inr (lookupProp props k)"
| "getProp v k = Inr JUndefined"

fun setProp :: "jsvalue \<Rightarrow> string \<Rightarrow> jsvalue \<Rightarrow> js_exception + jsvalue" where
  "setProp (JObj props) k v = Inr (JObj (AList.update k v props))"
| "setProp (JArr elems props) k v = Inr (JArr elems (AList.update k v props))"
| "setProp w k v = Inl TypeError"

fun truthy :: "jsvalue \<Rightarrow> bool" where
  "truthy JUndefined = False"
| "truthy JNull = False"
| "truthy (JBool b) = b"
| "truthy (JNum n) = (n \<noteq> 0)"
| "truthy (JStr s) = (s \<noteq> [])"
| "truthy (JArr elems props) = True"
| "truthy (JObj props) = True"

definition defaultViewport :: jsvalue where
  "defaultViewport = JObj [(''offsetX'', JNum 0), (''offsetY'', JNum 0), (''zoom'', JNum 1)]"

text \<open>
  The first argument is the outcome of reading the file (\<open>None\<close>: \<open>reader.onerror\<close>), the
  second the outcome of \<open>JSON.parse\<close> on the text read.
\<close>

definition importFromJSON ::
  "(string \<Rightarrow> jsvalue option) \<Rightarrow> string option \<Rightarrow> import_error + jsvalue" where
  "importFromJSON JSON_parse file =
     (case file of
        None \<Rightarrow> Inl FailedToReadFile
      | Some content \<Rightarrow>
          (case JSON_parse content of
             None \<Rightarrow> Inl InvalidJSONFile
           | Some parsedState \<Rightarrow>
               (case getProp parsedState ''viewport'' of
                  Inl e \<Rightarrow> Inl InvalidJSONFile
                | Inr v \<Rightarrow>
                    if \<not> truthy v then
                      (case setProp parsedState ''viewport'' defaultViewport of
                         Inl e \<Rightarrow> Inl InvalidJSONFile
                       | Inr parsedState' \<Rightarrow> Inr parsedState')
                    else Inr parsedState)))"

section \<open>Shape classes and sample data\<close>

text \<open>
  The shapes whose geometry is their own box (\<open>rectangle\<close>, \<open>circle\<close>, \<open>text\<close>): the
  last branch of \<open>getShapeBounds\<close>, \<open>moveShape\<close> and \<open>resizeShape\<close>.
\<close>

definition boxKind :: "ShapeKind \<Rightarrow> bool" where
  "boxKind k =
     (case k of RectangleShape \<Rightarrow> True | CircleShape \<Rightarrow> True | TextShape _ _ _ \<Rightarrow> True
      | _ \<Rightarrow> False)"

definition verticalLine :: Shape where
  "verticalLine =
     \<lparr>x = 0, y = 0, width = 0, height = 10, shape_id = ''line1'',
      strokeColor = ''#ffffff'', fillColor = ''transparent'', strokeWidth = 2, roughness = 0,
      rotation = None, selected = None, zIndex = None, kind = LineShape 0 10\<rparr>"

definition slantedLine :: Shape where
  "slantedLine =
     \<lparr>x = 0, y = 0, width = 0, height = 0, shape_id = ''line2'',
      strokeColor = ''#ffffff'', fillColor = ''transparent'', strokeWidth = 2, roughness = 0,
      rotation = None, selected = None, zIndex = None, kind = LineShape 4 2\<rparr>"

definition fullHistory :: HistoryState where
  "fullHistory =
     \<lparr>past = replicate 50 initialCanvasState, present = initialCanvasState, future = []\<rparr>"

definition shiftedViewport :: ViewportState where
  "shiftedViewport = \<lparr>offsetX = 30, offsetY = -10, zoom = 2\<rparr>"

definition shiftedHistory :: HistoryState where
  "shiftedHistory = initialHistory (initialCanvasState\<lparr>viewport := shiftedViewport\<rparr>)"

definition sampleApp :: App where
  "sampleApp =
     \<lparr>ui = initialUI\<lparr>textInput := \<lparr>x = 7, y = 9, visible = True\<rparr>\<rparr>,
      history = initialHistory (initialCanvasState\<lparr>shapes := [slantedLine], currentTool := TextTool\<rparr>)\<rparr>"

definition textHi :: jsstring where
  "textHi = [0x48, 0x69]"

definition textBlank :: jsstring where
  "textBlank = [0x20, 0x09, 0x2003]"


section \<open>Reading the import's result\<close>

text \<open>
  \<open>isObject\<close> holds for the values on which a property can be created, \<open>viewportOf\<close>
  reads \<open>state.viewport\<close>, and \<open>withDefaultViewport\<close> is the value after the assignment
  of the default viewport. \<open>sampleParse\<close> is \<open>JSON.parse\<close> on the three texts
  \<open>null\<close>, \<open>{}\<close> and \<open>7\<close>; it is applied to these and to the malformed text \<open>{\<close> only.
\<close>

definition isObject :: "jsvalue \<Rightarrow> bool" where
  "isObject v = (case v of JObj _ \<Rightarrow> True | JArr _ _ \<Rightarrow> True | _ \<Rightarrow> False)"

definition viewportOf :: "jsvalue \<Rightarrow> jsvalue" where
  "viewportOf v = (case getProp v ''viewport'' of Inl e \<Rightarrow> JUndefined | Inr w \<Rightarrow> w)"

definition withDefaultViewport :: "jsvalue \<Rightarrow> jsvalue" where
  "withDefaultViewport v =
     (case v of
        JObj props \<Rightarrow> JObj (AList.update ''viewport'' defaultViewport props)
      | JArr elems props \<Rightarrow> JArr elems (AList.update ''viewport'' defaultViewport props)
      | _ \<Rightarrow> v)"

definition sampleParse :: "string \<Rightarrow> jsvalue option" where
  "sampleParse content =
     (if content = ''null'' then Some JNull
      else if content = ''{}'' then Some (JObj [])
      else if content = ''7'' then Some (JNum 7)
      else None)"


section \<open>A sample canvas and the dragging state\<close>

definition selectedRect :: Shape where
  "selectedRect =
     \<lparr>x = 10, y = 10, width = 100, height = 50, shape_id = ''r1'',
      strokeColor = ''#ffffff'', fillColor = ''transparent'', strokeWidth = 2, roughness = 0,
      rotation = None, selected = Some True, zIndex = None, kind = RectangleShape\<rparr>"

definition rectCanvas :: CanvasState where
  "rectCanvas = initialCanvasState
     \<lparr>shapes := [selectedRect], selectedShapeId := Some ''r1'', currentTool := SelectTool\<rparr>"

definition rectHistory :: HistoryState where
  "rectHistory = initialHistory rectCanvas"

definition rectApp :: App where
  "rectApp = \<lparr>ui = initialUI, history = rectHistory\<rparr>"

text \<open>
  The state of the component while a shape is dragged: \<open>isDragging\<close> with a drag
  anchor, neither panning nor drawing, and a selected id that passes the truth test of
  \<open>handleMouseMove\<close>.
\<close>

definition dragging :: "App \<Rightarrow> bool" where
  "dragging app =
     (isDragging (ui app) \<and> dragStart (ui app) \<noteq> None \<and> \<not> isPanning (ui app)
      \<and> \<not> isDrawing (ui app) \<and> truthyId (selectedShapeId (present (history app))))"


section \<open>Properties of the history manager\<close>

lemma past_pushToHistory:
  "past (pushToHistory h s) =
     (if length (past h) < 50 then past h @ [present h] else tl (past h @ [present h]))"
  by (simp add: pushToHistory_def MAX_HISTORY_SIZE_def Let_def)

lemma present_pushToHistory: "present (pushToHistory h s) = s"
  by (simp add: pushToHistory_def Let_def)

lemma future_pushToHistory: "future (pushToHistory h s) = []"
  by (simp add: pushToHistory_def Let_def)

lemma present_commits: "present (commits h cs) = last (present h # cs)"
  by (induction cs rule: rev_induct) (simp_all add: commits_def present_pushToHistory)

lemma commits_snoc: "commits h (cs @ [c]) = pushToHistory (commits h cs) c"
  by (simp add: commits_def)

lemma butlast_present_snoc: "butlast (p # cs @ [c]) = butlast (p # cs) @ [last (p # cs)]"
  by (metis append_Cons butlast_snoc list.distinct(1) snoc_eq_iff_butlast)

lemma length_chronicle: "length (past h @ butlast (present h # cs)) = length (past h) + length cs"
  by simp

lemma past_commits:
  assumes "length (past h) \<le> 50"
  shows "past (commits h cs) =
           drop (length (past h) + length cs - 50) (past h @ butlast (present h # cs))"
proof (induction cs rule: rev_induct)
  case Nil
  from assms show ?case by (simp add: commits_def)
next
  case (snoc c cs)
  define all where "all = past h @ butlast (present h # cs)"
  define n where "n = length (past h) + length cs"
  define p where "p = present (commits h cs)"
  have len_all: "length all = n"
    unfolding all_def n_def by (rule length_chronicle)
  have IH: "past (commits h cs) = drop (n - 50) all"
    using snoc.IH unfolding all_def n_def .
  have step: "past h @ butlast (present h # cs @ [c]) = all @ [p]"
    unfolding all_def p_def present_commits
    using butlast_present_snoc [of "present h" cs c] by simp
  have len_past: "length (past (commits h cs)) = n - (n - 50)"
    unfolding IH using len_all by simp
  have push: "past (commits h (cs @ [c])) =
      (if n - (n - 50) < 50 then drop (n - 50) all @ [p] else tl (drop (n - 50) all @ [p]))"
    unfolding commits_snoc past_pushToHistory len_past
    unfolding IH p_def by (rule refl)
  have goal: "past (commits h (cs @ [c])) = drop (n + 1 - 50) (all @ [p])"
  proof (cases "n < 50")
    case True
    then show ?thesis unfolding push by simp
  next
    case False
    then have "n - (n - 50) = 50" by simp
    then have "past (commits h (cs @ [c])) = tl (drop (n - 50) all @ [p])"
      unfolding push by simp
    also have "\<dots> = tl (drop (n - 50) (all @ [p]))"
      using len_all by simp
    also have "\<dots> = drop (Suc (n - 50)) (all @ [p])"
      by (simp only: drop_Suc tl_drop)
    also have "Suc (n - 50) = n + 1 - 50"
      using False by simp
    finally show ?thesis .
  qed
  have "length (past h) + length (cs @ [c]) = n + 1"
    unfolding n_def by simp
  then show ?case using goal step by simp
qed

lemma length_past_commits:
  assumes "length (past h) \<le> 50"
  shows "length (past (commits h cs)) \<le> 50"
proof -
  have "length (past (commits h cs)) =
      length (past h) + length cs - (length (past h) + length cs - 50)"
    unfolding past_commits [OF assms] length_drop length_chronicle by (rule refl)
  then show ?thesis by simp
qed

text \<open>
  C3. Starting from any history whose past holds at most 50 snapshots (the initial
  history has an empty past), after every commit of a sequence the past has at most 50
  entries, and it consists of the most recent entries of the chronological list of
  earlier snapshots: entries are dropped from the front, oldest first.
\<close>

theorem C3_past_bounded_fifo:
  assumes "length (past h) \<le> 50"
  shows "length (past (commits h cs)) \<le> 50
       \<and> past (commits h cs) =
           drop (length (past h) + length cs - 50) (past h @ butlast (present h # cs))
       \<and> past (pushToHistory h c) =
           (if length (past h) = 50 then tl (past h) @ [present h] else past h @ [present h])"
proof -
  have "length (past (commits h cs)) \<le> 50"
    using assms by (rule length_past_commits)
  moreover have "past (pushToHistory h c) =
      (if length (past h) = 50 then tl (past h) @ [present h] else past h @ [present h])"
    using assms by (cases "past h") (auto simp: past_pushToHistory)
  ultimately show ?thesis using past_commits [OF assms] by simp
qed

theorem C3_past_bounded_fifo_witness:
  "length (past fullHistory) \<le> 50
   \<and> length (past (commits fullHistory [initialCanvasState, initialCanvasState])) \<le> 50
   \<and> past (pushToHistory fullHistory initialCanvasState)
       = tl (past fullHistory) @ [present fullHistory]"
  using C3_past_bounded_fifo
    [of fullHistory "[initialCanvasState, initialCanvasState]" initialCanvasState]
  by (simp add: fullHistory_def)

text \<open>
  C5. When the past is not empty, \<open>undo\<close> followed by \<open>redo\<close> gives back the history
  it started from, and with it the present snapshot; the same holds for the two actions
  of the canvas hook. With an empty past \<open>undo\<close> changes nothing and returns the present
  snapshot, and so does \<open>redo\<close> with an empty future. Both functions are total: there is
  no error result.
\<close>

theorem C5_undo_redo_roundtrip:
  "(canUndo h \<longrightarrow>
      fst (redo (fst (undo h))) = h
    \<and> present (fst (redo (fst (undo h)))) = present h
    \<and> redoAction (undoAction h) = h)
   \<and> (\<not> canUndo h \<longrightarrow> undo h = (h, present h) \<and> undoAction h = h)
   \<and> (\<not> canRedo h \<longrightarrow> redo h = (h, present h) \<and> redoAction h = h)"
  by (auto simp add: undo_def redo_def canUndo_def canRedo_def undoAction_def redoAction_def
      replacePresent_def)

theorem C5_undo_redo_roundtrip_witness:
  "canUndo fullHistory \<and> \<not> canRedo fullHistory
   \<and> \<not> canUndo (initialHistory initialCanvasState)
   \<and> fst (redo (fst (undo fullHistory))) = fullHistory
   \<and> undo (initialHistory initialCanvasState)
       = (initialHistory initialCanvasState, present (initialHistory initialCanvasState))
   \<and> redo fullHistory = (fullHistory, present fullHistory)"
  using C5_undo_redo_roundtrip [of fullHistory]
    C5_undo_redo_roundtrip [of "initialHistory initialCanvasState"]
  by (simp add: fullHistory_def initialHistory_def canUndo_def canRedo_def)

section \<open>Properties of the geometry utilities\<close>

lemma Math_min_Min: "vs \<noteq> [] \<Longrightarrow> Math_min vs = Min (set vs)"
proof (cases vs)
  case Nil
  assume "vs \<noteq> []"
  with Nil show ?thesis by simp
next
  case (Cons a l)
  then show ?thesis by (simp only: Math_min.simps Min.set_eq_fold)
qed

lemma Math_max_Max: "vs \<noteq> [] \<Longrightarrow> Math_max vs = Max (set vs)"
proof (cases vs)
  case Nil
  assume "vs \<noteq> []"
  with Nil show ?thesis by simp
next
  case (Cons a l)
  then show ?thesis by (simp only: Math_max.simps Max.set_eq_fold)
qed

lemma mono_affine: "0 \<le> k \<Longrightarrow> mono (\<lambda>v::real. a + (v - c) * k)"
  by (rule monoI) (simp add: mult_right_mono)

lemma Math_min_affine:
  assumes "ps \<noteq> []" and "0 \<le> k"
  shows "Math_min (map (\<lambda>p. a + (g p - c) * k) ps) = a + (Math_min (map g ps) - c) * k"
proof -
  have "Min ((\<lambda>v. a + (v - c) * k) ` set (map g ps)) = a + (Min (set (map g ps)) - c) * k"
    using mono_Min_commute [OF mono_affine [OF assms(2)], of "set (map g ps)" a c] assms(1)
    by simp
  then show ?thesis
    using assms(1) by (simp add: Math_min_Min image_image)
qed

lemma Math_max_affine:
  assumes "ps \<noteq> []" and "0 \<le> k"
  shows "Math_max (map (\<lambda>p. a + (g p - c) * k) ps) = a + (Math_max (map g ps) - c) * k"
proof -
  have "Max ((\<lambda>v. a + (v - c) * k) ` set (map g ps)) = a + (Max (set (map g ps)) - c) * k"
    using mono_Max_commute [OF mono_affine [OF assms(2)], of "set (map g ps)" a c] assms(1)
    by simp
  then show ?thesis
    using assms(1) by (simp add: Math_max_Max image_image)
qed

lemma min_affine: "0 \<le> k \<Longrightarrow> min (a + (u - c) * k) (a + (v - c) * k) = a + (min u v - c) * (k::real)"
proof (cases "u \<le> v")
  case True
  assume "0 \<le> k"
  with True have "(u - c) * k \<le> (v - c) * k" by (simp add: mult_right_mono)
  with True show ?thesis by (simp add: min_def)
next
  case False
  assume "0 \<le> k"
  with False have "(v - c) * k \<le> (u - c) * k" by (simp add: mult_right_mono)
  with False show ?thesis by (simp add: min_def)
qed

lemma max_affine: "0 \<le> k \<Longrightarrow> max (a + (u - c) * k) (a + (v - c) * k) = a + (max u v - c) * (k::real)"
proof (cases "u \<le> v")
  case True
  assume "0 \<le> k"
  with True have "(u - c) * k \<le> (v - c) * k" by (simp add: mult_right_mono)
  with True show ?thesis by (simp add: max_def)
next
  case False
  assume "0 \<le> k"
  with False have "(v - c) * k \<le> (u - c) * k" by (simp add: mult_right_mono)
  with False show ?thesis by (simp add: max_def)
qed

lemma scale_back: "0.1 \<le> w \<Longrightarrow> w * (bw / max w 0.1) = (bw::real)"
  by (simp add: max_def)


lemma bounds_resize_box:
  assumes "boxKind (kind s)"
  shows "getShapeBounds (resizeShape s b) = b"
  using assms by (cases "kind s") (simp_all add: boxKind_def getShapeBounds_def resizeShape_def Let_def)

lemma bounds_resize_line:
  assumes "kind s = LineShape ex ey \<or> kind s = ArrowShape ex ey"
    and "0 < width b" "0 < height b"
    and "0.1 \<le> width (getShapeBounds s)" "0.1 \<le> height (getShapeBounds s)"
  shows "getShapeBounds (resizeShape s b) = b"
proof -
  define ob where "ob = getShapeBounds s"
  define sx where "sx = width b / max (width ob) 0.1"
  define sy where "sy = height b / max (height ob) 0.1"
  have sx: "0 \<le> sx" and sy: "0 \<le> sy"
    using assms(2,3) by (simp_all add: sx_def sy_def)
  have ob: "x ob = min (x s) ex" "y ob = min (y s) ey"
     "width ob = max (x s) ex - min (x s) ex" "height ob = max (y s) ey - min (y s) ey"
    using assms(1) by (auto simp: ob_def getShapeBounds_def Let_def)
  have wx: "(max (x s) ex - min (x s) ex) * sx = width b"
    using assms(4) scale_back [of "width ob" "width b"] by (simp add: sx_def ob ob_def [symmetric])
  have wy: "(max (y s) ey - min (y s) ey) * sy = height b"
    using assms(5) scale_back [of "height ob" "height b"] by (simp add: sy_def ob ob_def [symmetric])
  have "getShapeBounds (resizeShape s b) =
      \<lparr>x = min (x b + (x s - x ob) * sx) (x b + (ex - x ob) * sx),
       y = min (y b + (y s - y ob) * sy) (y b + (ey - y ob) * sy),
       width = max (x b + (x s - x ob) * sx) (x b + (ex - x ob) * sx)
             - min (x b + (x s - x ob) * sx) (x b + (ex - x ob) * sx),
       height = max (y b + (y s - y ob) * sy) (y b + (ey - y ob) * sy)
             - min (y b + (y s - y ob) * sy) (y b + (ey - y ob) * sy)\<rparr>"
    using assms(1) by (auto simp: getShapeBounds_def resizeShape_def Let_def ob_def sx_def sy_def)
  also have "\<dots> = \<lparr>x = x b, y = y b, width = width b, height = height b\<rparr>"
    unfolding min_affine [OF sx] max_affine [OF sx] min_affine [OF sy] max_affine [OF sy]
    using wx wy by (simp add: ob)
  finally show ?thesis by simp
qed


lemma bounds_resize_pen:
  assumes "kind s = PenShape pts"
    and "0 < width b" "0 < height b"
    and "0.1 \<le> width (getShapeBounds s)" "0.1 \<le> height (getShapeBounds s)"
  shows "getShapeBounds (resizeShape s b) = b"
proof -
  define ob where "ob = getShapeBounds s"
  define sx where "sx = width b / max (width ob) 0.1"
  define sy where "sy = height b / max (height ob) 0.1"
  have sx: "0 \<le> sx" and sy: "0 \<le> sy"
    using assms(2,3) by (simp_all add: sx_def sy_def)
  have ne: "pts \<noteq> []"
    using assms(1,4) by (auto simp: getShapeBounds_def)
  have ob: "x ob = Math_min (map x pts)" "y ob = Math_min (map y pts)"
     "width ob = Math_max (map x pts) - Math_min (map x pts)"
     "height ob = Math_max (map y pts) - Math_min (map y pts)"
    using assms(1) ne by (simp_all add: ob_def getShapeBounds_def Let_def)
  have wx: "(Math_max (map x pts) - Math_min (map x pts)) * sx = width b"
    using assms(4) scale_back [of "width ob" "width b"] by (simp add: sx_def ob ob_def [symmetric])
  have wy: "(Math_max (map y pts) - Math_min (map y pts)) * sy = height b"
    using assms(5) scale_back [of "height ob" "height b"] by (simp add: sy_def ob ob_def [symmetric])
  define pts' where "pts' = map (\<lambda>p. \<lparr>x = x b + (x p - x ob) * sx,
                                       y = y b + (y p - y ob) * sy\<rparr>) pts"
  have kind': "kind (resizeShape s b) = PenShape pts'"
    using assms(1) by (simp add: resizeShape_def Let_def pts'_def ob_def sx_def sy_def)
  have ne': "pts' \<noteq> []"
    using ne by (simp add: pts'_def)
  have xs': "map x pts' = map (\<lambda>p. x b + (x p - x ob) * sx) pts"
    and ys': "map y pts' = map (\<lambda>p. y b + (y p - y ob) * sy) pts"
    by (simp_all add: pts'_def)
  have "getShapeBounds (resizeShape s b) =
      \<lparr>x = Math_min (map x pts'), y = Math_min (map y pts'),
       width = Math_max (map x pts') - Math_min (map x pts'),
       height = Math_max (map y pts') - Math_min (map y pts')\<rparr>"
    using kind' ne' by (simp add: getShapeBounds_def Let_def)
  also have "\<dots> = \<lparr>x = x b, y = y b, width = width b, height = height b\<rparr>"
    unfolding xs' ys'
      Math_min_affine [OF ne sx] Math_max_affine [OF ne sx]
      Math_min_affine [OF ne sy] Math_max_affine [OF ne sy]
    using wx wy by (simp add: ob)
  finally show ?thesis by simp
qed

text \<open>
  C2, as the code has it. For a bounding box \<open>b\<close> of positive width and height,
  the bounds of \<open>resizeShape s b\<close> are \<open>b\<close> for a rectangle, a circle and a text, and
  for a pen path, a line and an arrow whose old bounds are at least 0.1 wide and 0.1
  high. Below that floor \<open>resizeShape\<close> divides by 0.1 instead of the old extent.
\<close>

theorem C2_resize_bounds_amended:
  assumes "0 < width b" and "0 < height b"
    and "boxKind (kind s)
         \<or> (0.1 \<le> width (getShapeBounds s) \<and> 0.1 \<le> height (getShapeBounds s))"
  shows "getShapeBounds (resizeShape s b) = b"
proof (cases "boxKind (kind s)")
  case True
  then show ?thesis by (rule bounds_resize_box)
next
  case False
  with assms(3) have big: "0.1 \<le> width (getShapeBounds s)" "0.1 \<le> height (getShapeBounds s)"
    by simp_all
  from False show ?thesis
  proof (cases "kind s")
    case (PenShape pts)
    then show ?thesis using assms(1,2) big by (rule bounds_resize_pen)
  next
    case (LineShape ex ey)
    then have "kind s = LineShape ex ey \<or> kind s = ArrowShape ex ey" by simp
    then show ?thesis using assms(1,2) big by (rule bounds_resize_line)
  next
    case (ArrowShape ex ey)
    then have "kind s = LineShape ex ey \<or> kind s = ArrowShape ex ey" by simp
    then show ?thesis using assms(1,2) big by (rule bounds_resize_line)
  qed (simp_all add: boxKind_def)
qed

theorem C2_resize_bounds_amended_witness:
  "0 < width \<lparr>x = 5, y = 6, width = 20, height = 30\<rparr>
   \<and> 0 < height \<lparr>x = 5, y = 6, width = 20, height = 30\<rparr>
   \<and> 0.1 \<le> width (getShapeBounds slantedLine) \<and> 0.1 \<le> height (getShapeBounds slantedLine)
   \<and> getShapeBounds (resizeShape slantedLine \<lparr>x = 5, y = 6, width = 20, height = 30\<rparr>)
       = \<lparr>x = 5, y = 6, width = 20, height = 30\<rparr>"
proof -
  have big: "0.1 \<le> width (getShapeBounds slantedLine) \<and> 0.1 \<le> height (getShapeBounds slantedLine)"
    by (simp add: slantedLine_def getShapeBounds_def Let_def)
  then show ?thesis
    using C2_resize_bounds_amended [of "\<lparr>x = 5, y = 6, width = 20, height = 30\<rparr>" slantedLine]
    by simp
qed

text \<open>
  C2 as stated fails: a vertical line has bounds of width 0, the scale factor is taken
  against the floor 0.1, both end points land on the same abscissa and the resized line
  is again 0 wide, not 20.
\<close>

theorem C2_resize_bounds_counterexample:
  "0 < width \<lparr>x = 0, y = 0, width = 20, height = 20\<rparr>
   \<and> 0 < height \<lparr>x = 0, y = 0, width = 20, height = 20\<rparr>
   \<and> getShapeBounds (resizeShape verticalLine \<lparr>x = 0, y = 0, width = 20, height = 20\<rparr>)
       = \<lparr>x = 0, y = 0, width = 0, height = 20\<rparr>
   \<and> getShapeBounds (resizeShape verticalLine \<lparr>x = 0, y = 0, width = 20, height = 20\<rparr>)
       \<noteq> \<lparr>x = 0, y = 0, width = 20, height = 20\<rparr>"
  by (simp add: verticalLine_def getShapeBounds_def resizeShape_def Let_def)


section \<open>Properties of zooming\<close>

lemma viewport_zoomViewport_anchored:
  "viewport (present (zoomViewport h d (Some cx) (Some cy))) =
     \<lparr>offsetX = cx - (cx - offsetX (viewport (present h)))
                     * (max 0.1 (min 5 (zoom (viewport (present h)) + d)) / zoom (viewport (present h))),
      offsetY = cy - (cy - offsetY (viewport (present h)))
                     * (max 0.1 (min 5 (zoom (viewport (present h)) + d)) / zoom (viewport (present h))),
      zoom = max 0.1 (min 5 (zoom (viewport (present h)) + d))\<rparr>"
  by (simp add: zoomViewport_def setViewport_def replacePresent_def Let_def)

lemma viewport_zoomViewport_plain:
  "cx = None \<or> cy = None \<Longrightarrow>
   viewport (present (zoomViewport h d cx cy)) =
     (viewport (present h))\<lparr>zoom := max 0.1 (min 5 (zoom (viewport (present h)) + d))\<rparr>"
  by (auto simp add: zoomViewport_def setViewport_def replacePresent_def Let_def split: option.splits)

lemma zoom_zoomViewport:
  "zoom (viewport (present (zoomViewport h d cx cy))) =
     max 0.1 (min 5 (zoom (viewport (present h)) + d))"
  by (simp add: zoomViewport_def setViewport_def replacePresent_def Let_def split: option.splits)

lemma zoomStep_range:
  "0.1 \<le> zoom (viewport (present (zoomStep h op)))
   \<and> zoom (viewport (present (zoomStep h op))) \<le> 5"
  by (cases op)
     (simp_all add: zoom_zoomViewport handleZoomIn_def handleZoomOut_def handleZoomReset_def)

text \<open>
  C4. Whatever the snapshot before it, a call of \<open>zoomViewport\<close> with any delta and any
  anchor leaves a zoom between 0.1 and 5: the clamp is part of the assignment itself.
  Hence after every step of every non-empty sequence of zoom operations (calls of
  \<open>onZoom\<close> from the wheel and the pinch handler, zoom in, zoom out, reset) the zoom
  lies in that interval.
\<close>

theorem C4_zoom_clamped:
  "0.1 \<le> zoom (viewport (present (zoomViewport h zoomDelta centerX centerY)))
   \<and> zoom (viewport (present (zoomViewport h zoomDelta centerX centerY))) \<le> 5
   \<and> 0.1 \<le> zoom (viewport (present (foldl zoomStep h (ops @ [op]))))
   \<and> zoom (viewport (present (foldl zoomStep h (ops @ [op])))) \<le> 5"
  using zoomStep_range [of "foldl zoomStep h ops" op]
  by (simp add: zoom_zoomViewport)

section \<open>Properties of the viewport transform\<close>

lemma anchor_fixed:
  assumes "z \<noteq> (0::real)"
  shows "(a - off) / z * z' + (a - (a - off) * (z' / z)) = a"
  using assms by (simp add: field_simps)

text \<open>
  C6. From a viewport with a zoom other than 0, a zoom step anchored at the screen point
  \<open>(ax, ay)\<close> sets the zoom to \<open>z' = clamp (z + d)\<close> and each offset to
  \<open>a - (a - offset) * (z' / z)\<close>; the document point that \<open>screenToCanvas\<close> found under
  the anchor before the step is mapped back to the anchor by \<open>canvasToScreen\<close> after
  it. In exact arithmetic this holds whether or not the clamp is hit. A step with a
  missing anchor coordinate changes the zoom only.
\<close>

theorem C6_zoom_anchor:
  assumes "zoom (viewport (present h)) \<noteq> 0"
  shows "zoom (viewport (present (zoomViewport h d (Some ax) (Some ay))))
           = max 0.1 (min 5 (zoom (viewport (present h)) + d))
       \<and> offsetX (viewport (present (zoomViewport h d (Some ax) (Some ay))))
           = ax - (ax - offsetX (viewport (present h)))
                  * (max 0.1 (min 5 (zoom (viewport (present h)) + d)) / zoom (viewport (present h)))
       \<and> offsetY (viewport (present (zoomViewport h d (Some ax) (Some ay))))
           = ay - (ay - offsetY (viewport (present h)))
                  * (max 0.1 (min 5 (zoom (viewport (present h)) + d)) / zoom (viewport (present h)))
       \<and> canvasToScreen (viewport (present (zoomViewport h d (Some ax) (Some ay))))
             (x (screenToCanvas (viewport (present h)) ax ay))
             (y (screenToCanvas (viewport (present h)) ax ay))
           = \<lparr>x = ax, y = ay\<rparr>
       \<and> viewport (present (zoomViewport h d None cy))
           = (viewport (present h))\<lparr>zoom := max 0.1 (min 5 (zoom (viewport (present h)) + d))\<rparr>
       \<and> viewport (present (zoomViewport h d cx None))
           = (viewport (present h))\<lparr>zoom := max 0.1 (min 5 (zoom (viewport (present h)) + d))\<rparr>"
proof -
  have fixed: "canvasToScreen (viewport (present (zoomViewport h d (Some ax) (Some ay))))
             (x (screenToCanvas (viewport (present h)) ax ay))
             (y (screenToCanvas (viewport (present h)) ax ay))
           = \<lparr>x = ax, y = ay\<rparr>"
    unfolding viewport_zoomViewport_anchored canvasToScreen_def screenToCanvas_def
    using anchor_fixed [OF assms] by simp
  show ?thesis
    using fixed viewport_zoomViewport_plain [of None cy h d]
      viewport_zoomViewport_plain [of cx None h d]
    by (simp add: viewport_zoomViewport_anchored)
qed

theorem C6_zoom_anchor_witness:
  "zoom (viewport (present shiftedHistory)) \<noteq> 0
   \<and> viewport (present (zoomViewport shiftedHistory 0.5 (Some 100) (Some 50)))
       = \<lparr>offsetX = 12.5, offsetY = -25, zoom = 2.5\<rparr>
   \<and> screenToCanvas (viewport (present shiftedHistory)) 100 50 = \<lparr>x = 35, y = 30\<rparr>
   \<and> canvasToScreen (viewport (present (zoomViewport shiftedHistory 0.5 (Some 100) (Some 50)))) 35 30
       = \<lparr>x = 100, y = 50\<rparr>"
proof -
  have z: "zoom (viewport (present shiftedHistory)) \<noteq> 0"
    by (simp add: shiftedHistory_def initialHistory_def shiftedViewport_def)
  have s: "screenToCanvas (viewport (present shiftedHistory)) 100 50 = \<lparr>x = 35, y = 30\<rparr>"
    by (simp add: shiftedHistory_def initialHistory_def shiftedViewport_def screenToCanvas_def)
  have v: "viewport (present (zoomViewport shiftedHistory 0.5 (Some 100) (Some 50)))
       = \<lparr>offsetX = 12.5, offsetY = -25, zoom = 2.5\<rparr>"
    by (simp add: viewport_zoomViewport_anchored shiftedHistory_def initialHistory_def shiftedViewport_def)
  show ?thesis
    using C6_zoom_anchor [OF z, of "0.5" 100 50] z s v by simp
qed

text \<open>
  C10. For a viewport with a zoom other than 0, \<open>canvasToScreen\<close> after
  \<open>screenToCanvas\<close> and \<open>screenToCanvas\<close> after \<open>canvasToScreen\<close> both return the
  point they started from.
\<close>

theorem C10_transforms_inverse:
  assumes "zoom v \<noteq> 0"
  shows "canvasToScreen v (x (screenToCanvas v px py)) (y (screenToCanvas v px py))
           = \<lparr>x = px, y = py\<rparr>
       \<and> screenToCanvas v (x (canvasToScreen v px py)) (y (canvasToScreen v px py))
           = \<lparr>x = px, y = py\<rparr>"
  using assms by (simp add: canvasToScreen_def screenToCanvas_def)

theorem C10_transforms_inverse_witness:
  "zoom shiftedViewport \<noteq> 0
   \<and> screenToCanvas shiftedViewport 100 50 = \<lparr>x = 35, y = 30\<rparr>
   \<and> canvasToScreen shiftedViewport 35 30 = \<lparr>x = 100, y = 50\<rparr>"
proof -
  have z: "zoom shiftedViewport \<noteq> 0" by (simp add: shiftedViewport_def)
  have s: "screenToCanvas shiftedViewport 100 50 = \<lparr>x = 35, y = 30\<rparr>"
    by (simp add: shiftedViewport_def screenToCanvas_def)
  show ?thesis using C10_transforms_inverse [OF z, of 100 50] z s by simp
qed


section \<open>Properties of text entry\<close>

lemma nextZIndex_above:
  assumes "s \<in> set ss"
  shows "zIndexOr0 s < nextZIndex ss"
proof -
  from assms have ne: "ss \<noteq> []" by auto
  then have "nextZIndex ss = Max (set (map zIndexOr0 ss)) + 1"
    by (simp add: nextZIndex_def Math_max_Max)
  moreover have "zIndexOr0 s \<le> Max (set (map zIndexOr0 ss))"
    using assms by (simp add: Max_ge)
  ultimately show ?thesis by simp
qed

lemma nextZIndex_formula:
  "nextZIndex ss = 1 + (if ss = [] then - 1 else Max (set (map zIndexOr0 ss)))"
  by (simp add: nextZIndex_def Math_max_Max)

lemma history_handleTextSubmit:
  "history (handleTextSubmit text newId app) =
     (if trim text \<noteq> [] then
        updateCanvasState (history app)
          ((present (history app))\<lparr>shapes := shapes (present (history app)) @
             [\<lparr>x = x (textInput (ui app)), y = y (textInput (ui app)),
               width = real (length text) * fontSize (present (history app)) * 0.6,
               height = fontSize (present (history app)),
               shape_id = newId,
               strokeColor = cv_strokeColor (present (history app)),
               fillColor = cv_fillColor (present (history app)),
               strokeWidth = cv_strokeWidth (present (history app)),
               roughness = cv_roughness (present (history app)),
               rotation = None, selected = None,
               zIndex = Some (nextZIndex (shapes (present (history app)))),
               kind = TextShape text (fontSize (present (history app)))
                                     (fontFamily (present (history app)))\<rparr>]\<rparr>)
      else history app)"
  by (simp add: handleTextSubmit_def Let_def)

text \<open>
  C8. When the trimmed text is not empty, text confirmation appends exactly one shape to
  the list: a text shape carrying the text, placed at the pending anchor, with width
  \<open>length text * fontSize * 0.6\<close>, height \<open>fontSize\<close> and a \<open>zIndex\<close> of one more than
  the largest existing \<open>zIndex\<close> (a missing one counts as 0; with no shapes, one more
  than -1), which is above the \<open>zIndex\<close> of every existing shape. When the trimmed text is
  empty the history, and so the shape list, stays as it was.
\<close>

theorem C8_text_submit:
  "(trim text \<noteq> [] \<longrightarrow>
      (\<exists>t. shapes (present (history (handleTextSubmit text newId app)))
             = shapes (present (history app)) @ [t]
          \<and> kind t = TextShape text (fontSize (present (history app)))
                                      (fontFamily (present (history app)))
          \<and> x t = x (textInput (ui app)) \<and> y t = y (textInput (ui app))
          \<and> width t = real (length text) * fontSize (present (history app)) * 0.6
          \<and> height t = fontSize (present (history app))
          \<and> zIndex t = Some (1 + (if shapes (present (history app)) = [] then - 1
                                    else Max (set (map zIndexOr0 (shapes (present (history app)))))))
          \<and> (\<forall>s \<in> set (shapes (present (history app))). zIndexOr0 s < zIndexOr0 t)))
   \<and> (trim text = [] \<longrightarrow>
        history (handleTextSubmit text newId app) = history app)"
proof (cases "trim text = []")
  case True
  then show ?thesis by (simp add: history_handleTextSubmit)
next
  case False
  define c where "c = present (history app)"
  define t where "t =
     \<lparr>x = x (textInput (ui app)), y = y (textInput (ui app)),
      width = real (length text) * fontSize c * 0.6,
      height = fontSize c,
      shape_id = newId,
      strokeColor = cv_strokeColor c, fillColor = cv_fillColor c,
      strokeWidth = cv_strokeWidth c, roughness = cv_roughness c,
      rotation = None, selected = None,
      zIndex = Some (nextZIndex (shapes c)),
      kind = TextShape text (fontSize c) (fontFamily c)\<rparr>"
  have appended: "shapes (present (history (handleTextSubmit text newId app))) = shapes c @ [t]"
    using False
    by (simp add: history_handleTextSubmit updateCanvasState_def present_pushToHistory
        c_def t_def)
  have zt: "zIndexOr0 t = nextZIndex (shapes c)"
    by (simp add: zIndexOr0_def t_def)
  have above: "\<forall>s \<in> set (shapes c). zIndexOr0 s < zIndexOr0 t"
    unfolding zt using nextZIndex_above by blast
  have fields: "kind t = TextShape text (fontSize c) (fontFamily c)"
    "x t = x (textInput (ui app))" "y t = y (textInput (ui app))"
    "width t = real (length text) * fontSize c * 0.6" "height t = fontSize c"
    "zIndex t = Some (1 + (if shapes c = [] then - 1 else Max (set (map zIndexOr0 (shapes c)))))"
    by (simp_all add: t_def nextZIndex_formula)
  from False appended above fields show ?thesis
    unfolding c_def by blast
qed

theorem C8_text_submit_witness:
  "trim textHi \<noteq> [] \<and> trim textBlank = []
   \<and> (\<exists>t. shapes (present (history (handleTextSubmit textHi ''t1'' sampleApp)))
             = [slantedLine, t]
          \<and> x t = 7 \<and> y t = 9 \<and> width t = 19.2 \<and> height t = 16 \<and> zIndex t = Some 1
          \<and> zIndexOr0 slantedLine < zIndexOr0 t)
   \<and> history (handleTextSubmit textBlank ''t1'' sampleApp) = history sampleApp"
proof -
  have hi: "trim textHi \<noteq> []"
    by (simp add: trim_def isWhiteSpace_def textHi_def)
  have blank: "trim textBlank = []"
    by (simp add: trim_def isWhiteSpace_def textBlank_def)
  have c: "present (history sampleApp)
      = initialCanvasState\<lparr>shapes := [slantedLine], currentTool := TextTool\<rparr>"
    "textInput (ui sampleApp) = \<lparr>x = 7, y = 9, visible = True\<rparr>"
    by (simp_all add: sampleApp_def initialHistory_def)
  have z: "zIndexOr0 slantedLine = 0"
    by (simp add: zIndexOr0_def slantedLine_def)
  from C8_text_submit [of textHi "''t1''" sampleApp] hi
  obtain t where t: "shapes (present (history (handleTextSubmit textHi ''t1'' sampleApp)))
             = shapes (present (history sampleApp)) @ [t]"
      "x t = x (textInput (ui sampleApp))" "y t = y (textInput (ui sampleApp))"
      "width t = real (length textHi) * fontSize (present (history sampleApp)) * 0.6"
      "height t = fontSize (present (history sampleApp))"
      "zIndex t = Some (1 + (if shapes (present (history sampleApp)) = [] then - 1
                   else Max (set (map zIndexOr0 (shapes (present (history sampleApp)))))))"
      "\<forall>s \<in> set (shapes (present (history sampleApp))). zIndexOr0 s < zIndexOr0 t"
    by blast
  have "shapes (present (history (handleTextSubmit textHi ''t1'' sampleApp))) = [slantedLine, t]
      \<and> x t = 7 \<and> y t = 9 \<and> width t = 19.2 \<and> height t = 16 \<and> zIndex t = Some 1
      \<and> zIndexOr0 slantedLine < zIndexOr0 t"
    using t by (simp add: c z initialCanvasState_def textHi_def)
  then have ex: "\<exists>t. shapes (present (history (handleTextSubmit textHi ''t1'' sampleApp)))
             = [slantedLine, t]
          \<and> x t = 7 \<and> y t = 9 \<and> width t = 19.2 \<and> height t = 16 \<and> zIndex t = Some 1
          \<and> zIndexOr0 slantedLine < zIndexOr0 t" ..
  from C8_text_submit [of textBlank "''t1''" sampleApp] blank
  have "history (handleTextSubmit textBlank ''t1'' sampleApp) = history sampleApp"
    by blast
  with hi blank ex show ?thesis by blast
qed


section \<open>Properties of the JSON import\<close>

lemma import_parsed:
  assumes "JSON_parse content = Some v"
  shows "importFromJSON JSON_parse (Some content) =
           (if \<not> isObject v then Inl InvalidJSONFile
            else if truthy (viewportOf v) then Inr v
            else Inr (withDefaultViewport v))"
  using assms
  by (cases v) (simp_all add: importFromJSON_def isObject_def viewportOf_def withDefaultViewport_def)

lemma viewportOf_withDefault:
  "isObject v \<Longrightarrow> viewportOf (withDefaultViewport v) = defaultViewport"
  by (cases v) (simp_all add: isObject_def viewportOf_def withDefaultViewport_def lookupProp_def
      update_conv)

lemma viewportOf_missing:
  "map_of props ''viewport'' = None \<Longrightarrow> viewportOf (JObj props) = JUndefined"
  by (simp add: viewportOf_def lookupProp_def)

text \<open>
  C9, as the code has it. A text that \<open>JSON.parse\<close> rejects fails the import with the
  error \<open>Invalid JSON file\<close>. A parsed object without a \<open>viewport\<close> key comes back with
  \<open>viewport\<close> set to \<open>{offsetX: 0, offsetY: 0, zoom: 1}\<close>. In general a parsed value
  that is not an object (\<open>null\<close>, a number, a string, a boolean) fails with the same
  error, an object or array whose \<open>viewport\<close> is missing or falsy gets the default
  viewport, and an object with a truthy \<open>viewport\<close> is returned as it is.
\<close>

theorem C9_import_amended:
  "(JSON_parse content = None \<longrightarrow>
      importFromJSON JSON_parse (Some content) = Inl InvalidJSONFile)
   \<and> (JSON_parse content = Some (JObj props) \<and> map_of props ''viewport'' = None \<longrightarrow>
        importFromJSON JSON_parse (Some content)
          = Inr (JObj (AList.update ''viewport'' defaultViewport props))
        \<and> viewportOf (JObj (AList.update ''viewport'' defaultViewport props)) = defaultViewport)
   \<and> (JSON_parse content = Some v \<longrightarrow>
        importFromJSON JSON_parse (Some content)
          = (if \<not> isObject v then Inl InvalidJSONFile
             else if truthy (viewportOf v) then Inr v
             else Inr (withDefaultViewport v)))"
proof -
  have 1: "JSON_parse content = None \<longrightarrow>
      importFromJSON JSON_parse (Some content) = Inl InvalidJSONFile"
    by (simp add: importFromJSON_def)
  have 2: "JSON_parse content = Some (JObj props) \<and> map_of props ''viewport'' = None \<longrightarrow>
        importFromJSON JSON_parse (Some content)
          = Inr (JObj (AList.update ''viewport'' defaultViewport props))
        \<and> viewportOf (JObj (AList.update ''viewport'' defaultViewport props)) = defaultViewport"
    using viewportOf_withDefault [of "JObj props"]
    by (simp add: import_parsed viewportOf_missing isObject_def withDefaultViewport_def)
  from 1 2 show ?thesis using import_parsed by blast
qed

text \<open>
  C9 as stated fails: the text \<open>null\<close> is valid JSON, yet reading \<open>viewport\<close> from the
  parsed \<open>null\<close> throws inside the \<open>try\<close> block and the import is rejected as an
  invalid file.
\<close>

theorem C9_import_counterexample:
  "sampleParse ''null'' = Some JNull
   \<and> importFromJSON sampleParse (Some ''null'') = Inl InvalidJSONFile"
  by (simp add: sampleParse_def importFromJSON_def)

theorem C9_import_amended_witness:
  "sampleParse ''{'' = None
   \<and> importFromJSON sampleParse (Some ''{'') = Inl InvalidJSONFile
   \<and> sampleParse ''{}'' = Some (JObj []) \<and> map_of [] ''viewport'' = (None :: jsvalue option)
   \<and> importFromJSON sampleParse (Some ''{}'') = Inr (JObj [(''viewport'', defaultViewport)])
   \<and> sampleParse ''7'' = Some (JNum 7)
   \<and> importFromJSON sampleParse (Some ''7'') = Inl InvalidJSONFile"
proof -
  have p: "sampleParse ''{'' = None" "sampleParse ''{}'' = Some (JObj [])"
    "sampleParse ''7'' = Some (JNum 7)"
    by (simp_all add: sampleParse_def)
  show ?thesis
    using C9_import_amended [of sampleParse "''{''" "[]" JNull]
      C9_import_amended [of sampleParse "''{}''" "[]" "JObj []"]
      C9_import_amended [of sampleParse "''7''" "[]" "JNum 7"] p
    by (simp add: isObject_def)
qed


section \<open>Properties of duplication\<close>

lemma duplicate_no_selected_flag:
  assumes "duplicateSelectedShape h newId \<noteq> h"
  shows "\<forall>s \<in> set (shapes (present (duplicateSelectedShape h newId))). selected s = Some False"
  using assms
  by (auto simp add: duplicateSelectedShape_def Let_def present_pushToHistory deselectAll_def
      split: if_splits option.splits)

text \<open>
  C7, evaluated. The canvas holds one rectangle at \<open>(10, 10, 100, 50)\<close> with id \<open>r1\<close>,
  selected. Duplication with the new id \<open>r2\<close> appends the copy at \<open>(30, 30)\<close>, clears
  the flag of the original, sets \<open>selectedShapeId\<close> to \<open>r2\<close>, commits (one \<open>undo\<close>
  brings the old snapshot back), and gives the copy the flag \<open>selected = false\<close>: the
  shape named by \<open>selectedShapeId\<close> is not flagged, and no shape is.
\<close>

theorem C7_duplicate_copy_flag:
  "shapes (present (duplicateSelectedShape rectHistory ''r2''))
     = [selectedRect\<lparr>selected := Some False\<rparr>,
        selectedRect\<lparr>shape_id := ''r2'', x := 30, y := 30, selected := Some False\<rparr>]
   \<and> selectedShapeId (present (duplicateSelectedShape rectHistory ''r2'')) = Some ''r2''
   \<and> selected (last (shapes (present (duplicateSelectedShape rectHistory ''r2'')))) = Some False
   \<and> past (duplicateSelectedShape rectHistory ''r2'') = [rectCanvas]
   \<and> present (fst (undo (duplicateSelectedShape rectHistory ''r2''))) = rectCanvas"
  by (simp add: duplicateSelectedShape_def rectHistory_def rectCanvas_def initialHistory_def
      truthyId_def selectedRect_def deselectAll_def pushToHistory_def MAX_HISTORY_SIZE_def
      undo_def canUndo_def Let_def)

section \<open>Properties of the drag gesture\<close>

lemma length_past_push:
  "length (past h) \<le> 50 \<Longrightarrow> length (past (pushToHistory h s)) = min 50 (length (past h) + 1)"
  by (simp add: past_pushToHistory)

lemma handleMouseDown_hit:
  assumes "\<not> (button = 1 \<or> (button = 0 \<and> ctrl))"
    and "currentTool (present (history app)) = SelectTool"
    and "getShapeAtPoint (screenToCanvas (viewport (present (history app))) (x p) (y p))
           (shapes (present (history app))) = Some sh"
  shows "history (handleMouseDown button ctrl p newId app) =
           pushToHistory (history app)
             ((present (history app))
                \<lparr>shapes := map (\<lambda>shape. shape\<lparr>selected := Some (shape_id shape = shape_id sh)\<rparr>)
                               (shapes (present (history app))),
                 selectedShapeId := Some (shape_id sh)\<rparr>)"
    and "ui (handleMouseDown button ctrl p newId app) =
           (ui app)\<lparr>isDragging := True,
                    dragStart := Some (screenToCanvas (viewport (present (history app))) (x p) (y p))\<rparr>"
  using assms by (auto simp add: handleMouseDown_def Let_def updateCanvasState_def)

lemma dragging_after_down:
  assumes "\<not> (button = 1 \<or> (button = 0 \<and> ctrl))"
    and "currentTool (present (history app)) = SelectTool"
    and "getShapeAtPoint (screenToCanvas (viewport (present (history app))) (x p) (y p))
           (shapes (present (history app))) = Some sh"
    and "shape_id sh \<noteq> []"
    and "\<not> isPanning (ui app)" and "\<not> isDrawing (ui app)"
  shows "dragging (handleMouseDown button ctrl p newId app)"
  using assms(4-6)
  by (simp add: dragging_def handleMouseDown_hit [OF assms(1-3)] present_pushToHistory truthyId_def)

lemma handleMouseMove_dragging:
  assumes "dragging app"
  shows "history (handleMouseMove p app) =
           pushToHistory (history app)
             ((present (history app))
                \<lparr>shapes := map (\<lambda>shape.
                     if Some (shape_id shape) = selectedShapeId (present (history app))
                     then moveShape shape
                            (x (screenToCanvas (viewport (present (history app))) (x p) (y p))
                               - x (the (dragStart (ui app))))
                            (y (screenToCanvas (viewport (present (history app))) (x p) (y p))
                               - y (the (dragStart (ui app))))
                     else shape) (shapes (present (history app)))\<rparr>)"
    and "dragging (handleMouseMove p app)"
  using assms
  by (simp_all add: dragging_def handleMouseMove_def Let_def updateCanvasState_def
      present_pushToHistory)

lemma length_past_moves:
  assumes "dragging app" and "length (past (history app)) \<le> 50"
  shows "dragging (foldl (\<lambda>a q. handleMouseMove q a) app moves)
       \<and> length (past (history (foldl (\<lambda>a q. handleMouseMove q a) app moves)))
           = min 50 (length (past (history app)) + length moves)"
  using assms
proof (induction moves arbitrary: app)
  case Nil
  then show ?case by simp
next
  case (Cons q moves)
  have d: "dragging (handleMouseMove q app)"
    using Cons.prems(1) by (rule handleMouseMove_dragging(2))
  have l: "length (past (history (handleMouseMove q app))) = min 50 (length (past (history app)) + 1)"
    unfolding handleMouseMove_dragging(1) [OF Cons.prems(1)]
    using Cons.prems(2) by (rule length_past_push)
  then have l50: "length (past (history (handleMouseMove q app))) \<le> 50" by simp
  from Cons.IH [OF d l50] l show ?case by simp
qed

lemma history_handleMouseUp:
  "\<not> isDrawing (ui app) \<Longrightarrow> history (handleMouseUp app) = history app"
  by (simp add: handleMouseUp_def Let_def)

lemma dragGesture_history:
  assumes "\<not> (button = 1 \<or> (button = 0 \<and> ctrl))"
    and "currentTool (present (history app)) = SelectTool"
    and "getShapeAtPoint (screenToCanvas (viewport (present (history app))) (x p) (y p))
           (shapes (present (history app))) = Some sh"
    and "shape_id sh \<noteq> []"
    and "\<not> isPanning (ui app)" and "\<not> isDrawing (ui app)"
    and "length (past (history app)) \<le> 50"
  shows "history (dragGesture button ctrl p newId moves app)
           = history (foldl (\<lambda>a q. handleMouseMove q a)
                        (handleMouseDown button ctrl p newId app) moves)"
    and "length (past (history (dragGesture button ctrl p newId moves app)))
           = min 50 (length (past (history app)) + 1 + length moves)"
proof -
  let ?down = "handleMouseDown button ctrl p newId app"
  let ?moved = "foldl (\<lambda>a q. handleMouseMove q a) ?down moves"
  have d: "dragging ?down"
    using assms(1-6) by (rule dragging_after_down)
  have l: "length (past (history ?down)) = min 50 (length (past (history app)) + 1)"
    unfolding handleMouseDown_hit(1) [OF assms(1-3)] using assms(7) by (rule length_past_push)
  then have l50: "length (past (history ?down)) \<le> 50" by simp
  from length_past_moves [OF d l50, of moves]
  have dm: "dragging ?moved"
    and lm: "length (past (history ?moved)) = min 50 (length (past (history ?down)) + length moves)"
    by simp_all
  from dm have "\<not> isDrawing (ui ?moved)" by (simp add: dragging_def)
  then show up: "history (dragGesture button ctrl p newId moves app) = history ?moved"
    unfolding dragGesture_def by (rule history_handleMouseUp)
  show "length (past (history (dragGesture button ctrl p newId moves app)))
           = min 50 (length (past (history app)) + 1 + length moves)"
    unfolding up lm l by simp
qed


lemma move_sample_commits:
  assumes "dragging app" and "length (past (history app)) \<le> 50" and "k < length moves"
  shows "\<exists>s. history (foldl (\<lambda>a q. handleMouseMove q a) app (take (Suc k) moves))
             = pushToHistory (history (foldl (\<lambda>a q. handleMouseMove q a) app (take k moves))) s"
proof -
  let ?before = "foldl (\<lambda>a q. handleMouseMove q a) app (take k moves)"
  have dr: "dragging ?before"
    using length_past_moves [OF assms(1,2)] by blast
  have step: "foldl (\<lambda>a q. handleMouseMove q a) app (take (Suc k) moves)
      = handleMouseMove (moves ! k) ?before"
    using assms(3) by (simp add: take_Suc_conv_app_nth)
  show ?thesis
    unfolding step handleMouseMove_dragging(1) [OF dr] by blast
qed

text \<open>
  C1, as the code has it. The canvas reports every change through
  \<open>onCanvasStateChange\<close>, which is \<open>updateCanvasState\<close> and so \<open>pushToHistory\<close>. In a
  drag gesture that starts from a canvas neither panning nor drawing, with the select
  tool, on a shape with a non-empty id, and from a history with at most 50 past
  entries: the pointer-down commits a history entry, every move sample commits one more,
  the pointer-up leaves the history as it is, and after \<open>n\<close> samples the past holds
  \<open>min 50 (length past + 1 + n)\<close> entries.
\<close>

theorem C1_drag_commits:
  assumes "\<not> (button = 1 \<or> (button = 0 \<and> ctrl))"
    and "currentTool (present (history app)) = SelectTool"
    and "getShapeAtPoint (screenToCanvas (viewport (present (history app))) (x p) (y p))
           (shapes (present (history app))) = Some sh"
    and "shape_id sh \<noteq> []"
    and "\<not> isPanning (ui app)" and "\<not> isDrawing (ui app)"
    and "length (past (history app)) \<le> 50"
  shows "(\<exists>s. history (handleMouseDown button ctrl p newId app) = pushToHistory (history app) s)
       \<and> (\<forall>k < length moves. \<exists>s.
             history (foldl (\<lambda>a q. handleMouseMove q a)
                        (handleMouseDown button ctrl p newId app) (take (Suc k) moves))
               = pushToHistory
                   (history (foldl (\<lambda>a q. handleMouseMove q a)
                               (handleMouseDown button ctrl p newId app) (take k moves))) s)
       \<and> history (dragGesture button ctrl p newId moves app)
           = history (foldl (\<lambda>a q. handleMouseMove q a)
                        (handleMouseDown button ctrl p newId app) moves)
       \<and> length (past (history (dragGesture button ctrl p newId moves app)))
           = min 50 (length (past (history app)) + 1 + length moves)"
proof -
  let ?down = "handleMouseDown button ctrl p newId app"
  have d: "dragging ?down"
    using assms(1-6) by (rule dragging_after_down)
  have l: "length (past (history ?down)) \<le> 50"
    unfolding handleMouseDown_hit(1) [OF assms(1-3)]
    using length_past_push [OF assms(7)] by simp
  have down: "\<exists>s. history ?down = pushToHistory (history app) s"
    using handleMouseDown_hit(1) [OF assms(1-3)] by blast
  have each: "\<forall>k < length moves. \<exists>s.
             history (foldl (\<lambda>a q. handleMouseMove q a) ?down (take (Suc k) moves))
               = pushToHistory
                   (history (foldl (\<lambda>a q. handleMouseMove q a) ?down (take k moves))) s"
    using move_sample_commits [OF d l] by blast
  from down each dragGesture_history [OF assms] show ?thesis by blast
qed

lemma rect_hit:
  "getShapeAtPoint (screenToCanvas (viewport (present (history rectApp))) (x \<lparr>x = 20, y = 20\<rparr>)
       (y \<lparr>x = 20, y = 20\<rparr>)) (shapes (present (history rectApp))) = Some selectedRect"
  by (simp add: rectApp_def rectHistory_def rectCanvas_def initialHistory_def
      initialCanvasState_def screenToCanvas_def getShapeAtPoint_def isPointInShape_def
      hasRotation_def getShapeBounds_def selectedRect_def Let_def)

lemma rect_idle:
  "currentTool (present (history rectApp)) = SelectTool"
  "shape_id selectedRect \<noteq> []"
  "\<not> isPanning (ui rectApp)" "\<not> isDrawing (ui rectApp)"
  "past (history rectApp) = []"
  by (simp_all add: rectApp_def rectHistory_def rectCanvas_def initialHistory_def initialUI_def
      selectedRect_def)

text \<open>
  C1 as stated fails: a click on the rectangle followed by two move samples and the
  release takes the past from no entry to three.
\<close>

theorem C1_drag_counterexample:
  "past (history rectApp) = []
   \<and> length (past (history (dragGesture 0 False \<lparr>x = 20, y = 20\<rparr> ''n1''
                [\<lparr>x = 25, y = 25\<rparr>, \<lparr>x = 30, y = 30\<rparr>] rectApp))) = 3
   \<and> past (history (dragGesture 0 False \<lparr>x = 20, y = 20\<rparr> ''n1''
                [\<lparr>x = 25, y = 25\<rparr>, \<lparr>x = 30, y = 30\<rparr>] rectApp)) \<noteq> past (history rectApp)"
proof -
  have b: "\<not> ((0::nat) = 1 \<or> ((0::nat) = 0 \<and> False))" by simp
  have l: "length (past (history rectApp)) \<le> 50" by (simp add: rect_idle)
  have "length (past (history (dragGesture 0 False \<lparr>x = 20, y = 20\<rparr> ''n1''
                [\<lparr>x = 25, y = 25\<rparr>, \<lparr>x = 30, y = 30\<rparr>] rectApp))) = 3"
    using dragGesture_history(2) [OF b rect_idle(1) rect_hit rect_idle(2,3,4) l,
        of "''n1''" "[\<lparr>x = 25, y = 25\<rparr>, \<lparr>x = 30, y = 30\<rparr>]"]
    by (simp add: rect_idle)
  then show ?thesis by (auto simp: rect_idle)
qed

theorem C1_drag_commits_witness:
  "\<not> ((0::nat) = 1 \<or> ((0::nat) = 0 \<and> False))
   \<and> currentTool (present (history rectApp)) = SelectTool
   \<and> getShapeAtPoint (screenToCanvas (viewport (present (history rectApp))) (x \<lparr>x = 20, y = 20\<rparr>)
         (y \<lparr>x = 20, y = 20\<rparr>)) (shapes (present (history rectApp))) = Some selectedRect
   \<and> shape_id selectedRect \<noteq> []
   \<and> \<not> isPanning (ui rectApp) \<and> \<not> isDrawing (ui rectApp)
   \<and> length (past (history rectApp)) \<le> 50
   \<and> length (past (history (dragGesture 0 False \<lparr>x = 20, y = 20\<rparr> ''n1''
                [\<lparr>x = 25, y = 25\<rparr>, \<lparr>x = 30, y = 30\<rparr>] rectApp))) = 3"
proof -
  have b: "\<not> ((0::nat) = 1 \<or> ((0::nat) = 0 \<and> False))" by simp
  have l: "length (past (history rectApp)) \<le> 50" by (simp add: rect_idle)
  from C1_drag_commits [OF b rect_idle(1) rect_hit rect_idle(2,3,4) l,
        of "''n1''" "[\<lparr>x = 25, y = 25\<rparr>, \<lparr>x = 30, y = 30\<rparr>]"]
  have "length (past (history (dragGesture 0 False \<lparr>x = 20, y = 20\<rparr> ''n1''
                [\<lparr>x = 25, y = 25\<rparr>, \<lparr>x = 30, y = 30\<rparr>] rectApp)))
      = min 50 (length (past (history rectApp)) + 1
                + length [\<lparr>x = 25, y = 25\<rparr>, \<lparr>x = 30::real, y = 30::real\<rparr>])"
    by blast
  then have "length (past (history (dragGesture 0 False \<lparr>x = 20, y = 20\<rparr> ''n1''
                [\<lparr>x = 25, y = 25\<rparr>, \<lparr>x = 30, y = 30\<rparr>] rectApp))) = 3"
    by (simp add: rect_idle)
  with b l rect_hit rect_idle show ?thesis by simp
qed


end
